theory Spec2Isabelle
  imports Complex_Main
begin

section \<open>JavaScript values read by the configuration module\<close>

text \<open>
  The only executable code of the repository is \<^verbatim>\<open>src/config/index.ts\<close>. It reads
  \<^verbatim>\<open>process.env\<close>, whose properties are strings or \<^verbatim>\<open>undefined\<close>, converts five of
  them with \<^verbatim>\<open>Number(...)\<close> and supplies defaults with \<^verbatim>\<open>||\<close>.

  An environment is a partial map from variable names to strings; \<open>None\<close> is
  \<^verbatim>\<open>undefined\<close>. Characters are code units below 256.
\<close>

type_synonym env = "string \<rightharpoonup> string"

text \<open>
  A JavaScript number is an IEEE 754 binary64 value. The finite non-zero values and \<open>+0\<close>
  are carried by the rational they denote (\<open>Num 0\<close> is \<open>+0\<close>); \<open>-0\<close>, the infinities and
  \<^verbatim>\<open>NaN\<close> are separate constructors.
\<close>

datatype jsnum = NaN | PosInfinity | NegInfinity | NegZero | Num rat

text \<open>\<^verbatim>\<open>ToBoolean\<close> on a number: \<^verbatim>\<open>NaN\<close>, \<open>+0\<close> and \<open>-0\<close> are falsy.\<close>

fun ToBoolean :: "jsnum \<Rightarrow> bool" where
  "ToBoolean NaN = False"
| "ToBoolean NegZero = False"
| "ToBoolean PosInfinity = True"
| "ToBoolean NegInfinity = True"
| "ToBoolean (Num q) = (q \<noteq> 0)"

text \<open>\<^verbatim>\<open>x || d\<close> on numbers, and on a string-or-undefined left operand (the empty
  string and \<^verbatim>\<open>undefined\<close> are falsy).\<close>

definition or_number :: "jsnum \<Rightarrow> jsnum \<Rightarrow> jsnum" where
  "or_number x d = (if ToBoolean x then x else d)"

definition or_string :: "string option \<Rightarrow> string \<Rightarrow> string" where
  "or_string v d = (case v of None \<Rightarrow> d | Some s \<Rightarrow> if s = [] then d else s)"

text \<open>\<^verbatim>\<open>x >= y\<close> on numbers: false as soon as one side is \<^verbatim>\<open>NaN\<close>.\<close>

fun js_ge :: "jsnum \<Rightarrow> jsnum \<Rightarrow> bool" where
  "js_ge NaN y = False"
| "js_ge x NaN = False"
| "js_ge PosInfinity y = True"
| "js_ge x NegInfinity = True"
| "js_ge NegInfinity y = False"
| "js_ge x PosInfinity = False"
| "js_ge NegZero NegZero = True"
| "js_ge NegZero (Num q) = (q \<le> 0)"
| "js_ge (Num p) NegZero = (0 \<le> p)"
| "js_ge (Num p) (Num q) = (q \<le> p)"

subsection \<open>The Number value of a non-negative rational\<close>

text \<open>
  \<open>round_double n d\<close> is the binary64 value nearest to \<open>n / d\<close> (for \<open>d > 0\<close>), ties to
  the even significand, with gradual underflow below \<open>2\<^sup>-\<^sup>1\<^sup>0\<^sup>2\<^sup>2\<close> and \<open>+\<infinity>\<close> from
  \<open>2\<^sup>1\<^sup>0\<^sup>2\<^sup>4\<close> on; the exact value of the literal is rounded once, as V8 does for
  literals of any length. The arithmetic is on naturals: \<open>e\<close> is the binary exponent of the
  quotient, \<open>s = 52 - e\<close> the shift that leaves a 53-bit significand.
\<close>

fun bit_length :: "nat \<Rightarrow> nat" where
  "bit_length n = (if n = 0 then 0 else Suc (bit_length (n div 2)))"

declare bit_length.simps [simp del]

definition pow2 :: "int \<Rightarrow> rat" where
  "pow2 e = (if 0 \<le> e then 2 ^ nat e else 1 / 2 ^ nat (- e))"

definition floor_log2 :: "nat \<Rightarrow> nat \<Rightarrow> int" where
  "floor_log2 n d =
     (let e = int (bit_length n) - int (bit_length d)
      in if n * 2 ^ nat (- e) < d * 2 ^ nat e then e - 1 else e)"

definition round_half_even :: "nat \<Rightarrow> nat \<Rightarrow> nat" where
  "round_half_even n d =
     (let f = n div d; r = n mod d
      in if 2 * r < d then f
         else if d < 2 * r then f + 1
         else if even f then f else f + 1)"

definition round_double :: "nat \<Rightarrow> nat \<Rightarrow> jsnum" where
  "round_double n d =
     (if n = 0 then Num 0
      else let e = max (floor_log2 n d) (- 1022)
           in if 1024 \<le> e then PosInfinity
              else let s = 52 - e;
                       m = round_half_even (n * 2 ^ nat s) (d * 2 ^ nat (- s))
                   in if e = 1023 \<and> m = 2 ^ 53 then PosInfinity
                      else Num (of_nat m * pow2 (- s)))"

subsection \<open>\<^verbatim>\<open>Number(string)\<close>: the StringToNumber grammar\<close>

text \<open>White space and line terminators among the code units below 256:
  TAB, LF, VT, FF, CR, SP and NBSP.\<close>

definition is_white_space :: "char \<Rightarrow> bool" where
  "is_white_space c \<longleftrightarrow> of_char c \<in> {9, 10, 11, 12, 13, 32, 160 :: nat}"

definition trim :: "string \<Rightarrow> string" where
  "trim s = rev (dropWhile is_white_space (rev (dropWhile is_white_space s)))"

definition digit_value :: "char \<Rightarrow> nat option" where
  "digit_value c =
     (let n = of_char c :: nat
      in if 48 \<le> n \<and> n \<le> 57 then Some (n - 48)
         else if 97 \<le> n \<and> n \<le> 102 then Some (n - 87)
         else if 65 \<le> n \<and> n \<le> 70 then Some (n - 55)
         else None)"

definition is_digit :: "nat \<Rightarrow> char \<Rightarrow> bool" where
  "is_digit b c = (case digit_value c of None \<Rightarrow> False | Some v \<Rightarrow> v < b)"

definition digits_value :: "nat \<Rightarrow> string \<Rightarrow> nat" where
  "digits_value b ds =
     foldl (\<lambda>acc c. acc * b + (case digit_value c of None \<Rightarrow> 0 | Some v \<Rightarrow> v)) 0 ds"

definition is_digits :: "nat \<Rightarrow> string \<Rightarrow> bool" where
  "is_digits b ds \<longleftrightarrow> ds \<noteq> [] \<and> list_all (is_digit b) ds"

text \<open>The optional exponent part that ends a decimal literal: nothing, or \<open>e\<close>/\<open>E\<close>, an
  optional sign and at least one digit, up to the end of the string.\<close>

definition ExponentPart_opt :: "string \<Rightarrow> int option" where
  "ExponentPart_opt s =
     (case s of
        [] \<Rightarrow> Some 0
      | c # t \<Rightarrow>
          if c = CHR ''e'' \<or> c = CHR ''E'' then
            (case t of
               [] \<Rightarrow> None
             | x # u \<Rightarrow>
                 if x = CHR ''+'' then
                   (if is_digits 10 u then Some (int (digits_value 10 u)) else None)
                 else if x = CHR ''-'' then
                   (if is_digits 10 u then Some (- int (digits_value 10 u)) else None)
                 else
                   (if is_digits 10 t then Some (int (digits_value 10 t)) else None))
          else None)"

text \<open>\<^verbatim>\<open>Infinity\<close>, or digits with an optional fraction and exponent; at least one digit
  before or after the dot. The mathematical value \<open>m \<times> 10\<^sup>k\<close> is rounded to a double.\<close>

definition StrUnsignedDecimalLiteral :: "string \<Rightarrow> jsnum option" where
  "StrUnsignedDecimalLiteral s =
     (if s = ''Infinity'' then Some PosInfinity
      else
        let ip = takeWhile (is_digit 10) s;
            r1 = dropWhile (is_digit 10) s;
            fp = (case r1 of [] \<Rightarrow> [] | c # t \<Rightarrow>
                    if c = CHR ''.'' then takeWhile (is_digit 10) t else []);
            r2 = (case r1 of [] \<Rightarrow> [] | c # t \<Rightarrow>
                    if c = CHR ''.'' then dropWhile (is_digit 10) t else r1)
        in if ip = [] \<and> fp = [] then None
           else (case ExponentPart_opt r2 of
                   None \<Rightarrow> None
                 | Some x \<Rightarrow>
                     let k = x - int (length fp); m = digits_value 10 (ip @ fp)
                     in Some (round_double (m * 10 ^ nat k) (10 ^ nat (- k)))))"

fun negate :: "jsnum \<Rightarrow> jsnum" where
  "negate NaN = NaN"
| "negate PosInfinity = NegInfinity"
| "negate NegInfinity = PosInfinity"
| "negate NegZero = Num 0"
| "negate (Num q) = (if q = 0 then NegZero else Num (- q))"

definition StrDecimalLiteral :: "string \<Rightarrow> jsnum option" where
  "StrDecimalLiteral s =
     (case s of
        [] \<Rightarrow> None
      | c # t \<Rightarrow>
          if c = CHR ''+'' then StrUnsignedDecimalLiteral t
          else if c = CHR ''-'' then map_option negate (StrUnsignedDecimalLiteral t)
          else StrUnsignedDecimalLiteral s)"

text \<open>\<^verbatim>\<open>0b\<close>, \<^verbatim>\<open>0o\<close> and \<^verbatim>\<open>0x\<close> literals: no sign, at least one digit of the base.\<close>

definition NonDecimalIntegerLiteral :: "string \<Rightarrow> jsnum option" where
  "NonDecimalIntegerLiteral s =
     (case s of
        z # p # ds \<Rightarrow>
          if z = CHR ''0'' then
            (let b = (if p = CHR ''b'' \<or> p = CHR ''B'' then 2
                      else if p = CHR ''o'' \<or> p = CHR ''O'' then 8
                      else if p = CHR ''x'' \<or> p = CHR ''X'' then 16
                      else 0)
             in if b \<noteq> 0 \<and> is_digits b ds then Some (round_double (digits_value b ds) 1)
                else None)
          else None
      | _ \<Rightarrow> None)"

text \<open>The trimmed string: empty is \<open>+0\<close>, a numeric literal is its value, anything else
  is \<^verbatim>\<open>NaN\<close>.\<close>

definition StringToNumber :: "string \<Rightarrow> jsnum" where
  "StringToNumber s =
     (let t = trim s
      in if t = [] then Num 0
         else (case NonDecimalIntegerLiteral t of
                 Some v \<Rightarrow> v
               | None \<Rightarrow> (case StrDecimalLiteral t of Some v \<Rightarrow> v | None \<Rightarrow> NaN)))"

text \<open>\<^verbatim>\<open>Number(v)\<close> for a property of \<^verbatim>\<open>process.env\<close>: \<^verbatim>\<open>Number(undefined)\<close> is
  \<^verbatim>\<open>NaN\<close>. No case raises.\<close>

definition Number :: "string option \<Rightarrow> jsnum" where
  "Number v = (case v of None \<Rightarrow> NaN | Some s \<Rightarrow> StringToNumber s)"

section \<open>The configuration module\<close>

text \<open>
  \<^verbatim>\<open>dotenv.config()\<close> (line 2) merges the variables parsed from the \<^verbatim>\<open>.env\<close> file into
  \<^verbatim>\<open>process.env\<close>, keeping every variable the process already has. The parsed file is
  an input of the model.
\<close>

definition dotenv_config :: "env \<Rightarrow> env \<Rightarrow> env" where
  "dotenv_config parsed process_env =
     (\<lambda>k. case process_env k of Some v \<Rightarrow> Some v | None \<Rightarrow> parsed k)"

text \<open>
  The object literal of lines 4 to 26. A field written \<^verbatim>\<open>process.env.X as string\<close> holds
  whatever the property holds at run time, so its type is \<open>string option\<close>.
\<close>

record config =
  PORT :: jsnum
  NODE_ENV :: string
  MONGO_URI :: "string option"
  JWT_ACCESS_TOKEN :: "string option"
  JWT_REFRESH_TOKEN :: "string option"
  JWT_ACCESS_EXPIRY :: string
  JWT_REFRESH_EXPIRY :: string
  EMAIL_HOST :: "string option"
  EMAIL_PORT :: jsnum
  EMAIL_USER :: "string option"
  EMAIL_PASS :: "string option"
  CLIENT_URL :: string
  BCRYPT_SALT_ROUND :: jsnum
  RATE_LIMIT_WINDOW_MS :: jsnum
  RATE_LIMIT_MAX_REQUESTS :: jsnum

definition Config :: "env \<Rightarrow> config" where
  "Config process_env =
     \<lparr> PORT = or_number (Number (process_env ''PORT'')) (Num 3000),
       NODE_ENV = or_string (process_env ''NODE_ENV'') ''development'',
       MONGO_URI = process_env ''MONGO_URI'',
       JWT_ACCESS_TOKEN = process_env ''JWT_ACCESS_TOKEN'',
       JWT_REFRESH_TOKEN = process_env ''JWT_REFRESH_TOKEN'',
       JWT_ACCESS_EXPIRY = or_string (process_env ''JWT_ACCESS_EXPIRY'') ''15m'',
       JWT_REFRESH_EXPIRY = or_string (process_env ''JWT_REFRESH_EXPIRY'') ''7d'',
       EMAIL_HOST = process_env ''EMAIL_HOST'',
       EMAIL_PORT = or_number (Number (process_env ''EMAIL_PORT'')) (Num 587),
       EMAIL_USER = process_env ''EMAIL_USER'',
       EMAIL_PASS = process_env ''EMAIL_PASS'',
       CLIENT_URL = or_string (process_env ''CLIENT_URL'') ''http://localhost:5173'',
       BCRYPT_SALT_ROUND = or_number (Number (process_env ''BCRYPT_SALT_ROUND'')) (Num 12),
       RATE_LIMIT_WINDOW_MS =
         or_number (Number (process_env ''RATE_LIMIT_WINDOW_MS'')) (Num (15 * 60 * 1000)),
       RATE_LIMIT_MAX_REQUESTS =
         or_number (Number (process_env ''RATE_LIMIT_MAX_REQUESTS'')) (Num 100) \<rparr>"

text \<open>Loading the module: line 2, then the literal.\<close>

definition load_module :: "env \<Rightarrow> env \<Rightarrow> config" where
  "load_module parsed process_env = Config (dotenv_config parsed process_env)"


definition numeric_fields :: "(string \<times> (config \<Rightarrow> jsnum) \<times> rat) list" where
  "numeric_fields =
     [(''PORT'', PORT, 3000),
      (''EMAIL_PORT'', EMAIL_PORT, 587),
      (''BCRYPT_SALT_ROUND'', BCRYPT_SALT_ROUND, 12),
      (''RATE_LIMIT_WINDOW_MS'', RATE_LIMIT_WINDOW_MS, 900000),
      (''RATE_LIMIT_MAX_REQUESTS'', RATE_LIMIT_MAX_REQUESTS, 100)]"


section \<open>The authentication lifecycle of the specification\<close>

text \<open>
  The repository holds no implementation of the Auth Service, the Secret Hasher, the
  Token Issuer or the code generator: \<^verbatim>\<open>plan.md\<close> lists them as tasks still to do.
  The definitions of this section follow sections 3 and 4 of the specification
  instead. What the specification leaves to a collaborator or to chance is an argument:
  the one-way digest and the signature function, the input validator, the clock
  reading \<open>now\<close>, the random code and the random salt.
\<close>

type_synonym time = nat

type_synonym code = string

text \<open>Modelled from the spec: the error taxonomy of section 7, absent from the
  repository (the store is total here, so \<^verbatim>\<open>StoreUnavailable\<close> never arises).\<close>

datatype error =
  ValidationError | DuplicateEmail | NotFound | InvalidCredentials | NotVerified
  | CodeExpired | CodeMismatch | InvalidSignature | ExpiredToken | StoreUnavailable

text \<open>Modelled from the spec: the stored hash of section 4.1, absent from the
  repository; "a hash string encoding algorithm cost and random salt", kept as its three
  parts: cost, salt and digest.\<close>

datatype stored_hash = Hash nat string string

text \<open>Modelled from the spec: the user record of section 3, absent from the repository:
  identifier, display name, email, hashed secret, verification flag, optional
  verification code with expiry, optional reset code with expiry.\<close>

record user =
  user_id :: nat
  display_name :: string
  email :: string
  hashed_secret :: stored_hash
  verified :: bool
  verification_code :: "(code \<times> time) option"
  reset_code :: "(code \<times> time) option"

text \<open>Modelled from the spec: the token of section 3, absent from the repository: "a
  signed claim set binding to a user identifier and an expiry".\<close>

record token =
  subject :: nat
  expires_at :: time
  signature :: string

text \<open>Modelled from the spec: the collaborators the Auth Service consumes (sections 4.1,
  4.2 and 7), absent from the repository: the one-way transform (cost, salt, plaintext),
  the signature of a claim set under a secret, and the input validation that precedes
  every store access.\<close>

record collaborators =
  digest :: "nat \<Rightarrow> string \<Rightarrow> string \<Rightarrow> string"
  sign :: "string \<Rightarrow> nat \<times> time \<Rightarrow> string"
  valid_input :: "string \<Rightarrow> string \<Rightarrow> string \<Rightarrow> bool"

text \<open>Modelled from the spec: the configuration object passed to the constructors
  (section 9), absent from the repository: hashing cost, shortest accepted secret, code
  window, and the secret and lifetime of each token class.\<close>

record settings =
  cost :: nat
  min_secret_length :: nat
  code_window :: time
  access_secret :: string
  refresh_secret :: string
  access_ttl :: time
  refresh_ttl :: time

text \<open>Modelled from the spec: the emails handed to the sending capability of section 6,
  absent from the repository; only the recipient and the code are kept.\<close>

datatype mail = VerificationMail string code | ResetMail string code

text \<open>Modelled from the spec: the state the Auth Service works on, absent from the
  repository: the credential store and the emails sent so far.\<close>

record auth_state =
  users :: "user list"
  outbox :: "mail list"

text \<open>Modelled from the spec: the states of a user record in section 4.4, absent from
  the repository.\<close>

datatype lifecycle = Unregistered | PendingVerification | Verified | PasswordResetPending

text \<open>Modelled from the spec: the result of a code check in section 4.3, absent from the
  repository: "valid|expired|mismatch".\<close>

datatype check_result = Valid | Expired | Mismatch

text \<open>Modelled from the spec: case-insensitive emails (section 3), absent from the
  repository; letters A to Z are folded to lower case before comparing.\<close>

definition to_lower :: "char \<Rightarrow> char" where
  "to_lower c =
     (let n = of_char c :: nat in if 65 \<le> n \<and> n \<le> 90 then char_of (n + 32) else c)"

text \<open>Modelled from the spec: the store capability \<^verbatim>\<open>findByEmail\<close> of section 6, absent
  from the repository.\<close>

definition findByEmail :: "user list \<Rightarrow> string \<Rightarrow> user option" where
  "findByEmail us e = find (\<lambda>u. map to_lower (email u) = map to_lower e) us"

text \<open>Modelled from the spec: the store capability \<^verbatim>\<open>updateById\<close> of section 6, absent
  from the repository.\<close>

definition updateById :: "user list \<Rightarrow> nat \<Rightarrow> (user \<Rightarrow> user) \<Rightarrow> user list" where
  "updateById us i f = map (\<lambda>u. if user_id u = i then f u else u) us"

text \<open>Modelled from the spec: the Secret Hasher of section 4.1, absent from the
  repository. It "rejects empty/too-short plaintext before hashing" and otherwise
  returns the cost, the salt and the digest.\<close>

definition hash_secret ::
  "collaborators \<Rightarrow> settings \<Rightarrow> string \<Rightarrow> string \<Rightarrow> stored_hash option" where
  "hash_secret co st salt plaintext =
     (if plaintext = [] \<or> length plaintext < min_secret_length st then None
      else Some (Hash (cost st) salt (digest co (cost st) salt plaintext)))"

text \<open>Modelled from the spec: the verification operation of section 4.1, absent from the
  repository: the plaintext is hashed again under the stored cost and salt and the
  digests are compared.\<close>

definition verify_secret :: "collaborators \<Rightarrow> string \<Rightarrow> stored_hash \<Rightarrow> bool" where
  "verify_secret co plaintext h =
     (case h of Hash c salt d \<Rightarrow> digest co c salt plaintext = d)"

text \<open>Modelled from the spec: \<^verbatim>\<open>issueAccessToken\<close> and \<^verbatim>\<open>issueRefreshToken\<close> of section
  4.2, absent from the repository: each embeds the user identifier and an expiry and is
  signed with the secret of its class.\<close>

definition issueAccessToken :: "collaborators \<Rightarrow> settings \<Rightarrow> time \<Rightarrow> nat \<Rightarrow> token" where
  "issueAccessToken co st now userId =
     \<lparr> subject = userId, expires_at = now + access_ttl st,
       signature = sign co (access_secret st) (userId, now + access_ttl st) \<rparr>"

definition issueRefreshToken :: "collaborators \<Rightarrow> settings \<Rightarrow> time \<Rightarrow> nat \<Rightarrow> token" where
  "issueRefreshToken co st now userId =
     \<lparr> subject = userId, expires_at = now + refresh_ttl st,
       signature = sign co (refresh_secret st) (userId, now + refresh_ttl st) \<rparr>"

text \<open>Modelled from the spec: \<^verbatim>\<open>issue\<close> of section 4.3, absent from the repository: the
  random code \<open>c\<close> with the absolute expiry \<open>now\<close> plus the window.\<close>

definition issue :: "settings \<Rightarrow> time \<Rightarrow> code \<Rightarrow> code \<times> time" where
  "issue st now c = (c, now + code_window st)"

text \<open>Modelled from the spec: \<^verbatim>\<open>check(storedCode, storedExpiry, suppliedCode, now)\<close> of
  section 4.3, absent from the repository. Section 8 puts the expiry first: a check after
  the expiry timestamp fails "even with the correct code value".\<close>

definition check :: "code \<Rightarrow> time \<Rightarrow> code \<Rightarrow> time \<Rightarrow> check_result" where
  "check storedCode storedExpiry suppliedCode now =
     (if storedExpiry < now then Expired
      else if suppliedCode = storedCode then Valid
      else Mismatch)"

text \<open>Modelled from the spec: \<^verbatim>\<open>register(name, email, password)\<close> of section 4.4, absent
  from the repository: malformed input is rejected first, then a taken email; else the
  password is hashed, the record is created unverified with a verification code, the
  email is sent, and no token is returned.\<close>

definition register ::
  "collaborators \<Rightarrow> settings \<Rightarrow> time \<Rightarrow> code \<Rightarrow> string \<Rightarrow>
   string \<Rightarrow> string \<Rightarrow> string \<Rightarrow> auth_state \<Rightarrow> (error + unit) \<times> auth_state" where
  "register co st now c salt name mail_address password s =
     (if \<not> valid_input co name mail_address password then (Inl ValidationError, s)
      else
        (case findByEmail (users s) mail_address of
           Some u \<Rightarrow> (Inl DuplicateEmail, s)
         | None \<Rightarrow>
             (case hash_secret co st salt password of
                None \<Rightarrow> (Inl ValidationError, s)
              | Some h \<Rightarrow>
                  (Inr (),
                   \<lparr> users = users s @
                       [\<lparr> user_id = length (users s), display_name = name,
                          email = mail_address, hashed_secret = h, verified = False,
                          verification_code = Some (issue st now c),
                          reset_code = None \<rparr>],
                     outbox = outbox s @ [VerificationMail mail_address (fst (issue st now c))] \<rparr>))))"

text \<open>Modelled from the spec: \<^verbatim>\<open>verifyEmail(email, code)\<close> of section 4.4, absent from the
  repository: "fails NotFound, CodeExpired, or CodeMismatch; on success transitions to
  Verified, clears the code". A record whose code was cleared fails with
  \<^verbatim>\<open>CodeMismatch\<close> (section 8).\<close>

definition verifyEmail ::
  "time \<Rightarrow> string \<Rightarrow> code \<Rightarrow> auth_state \<Rightarrow> (error + unit) \<times> auth_state" where
  "verifyEmail now mail_address supplied s =
     (case findByEmail (users s) mail_address of
        None \<Rightarrow> (Inl NotFound, s)
      | Some u \<Rightarrow>
          (case verification_code u of
             None \<Rightarrow> (Inl CodeMismatch, s)
           | Some (storedCode, storedExpiry) \<Rightarrow>
               (case check storedCode storedExpiry supplied now of
                  Expired \<Rightarrow> (Inl CodeExpired, s)
                | Mismatch \<Rightarrow> (Inl CodeMismatch, s)
                | Valid \<Rightarrow>
                    (Inr (),
                     s\<lparr> users := updateById (users s) (user_id u)
                          (\<lambda>r. r\<lparr> verified := True, verification_code := None \<rparr>) \<rparr>))))"

text \<open>Modelled from the spec: \<^verbatim>\<open>login(email, password)\<close> of section 4.4, absent from the
  repository: an unknown email and a wrong password give the same error; an unverified
  record fails with \<^verbatim>\<open>NotVerified\<close> "regardless of credential correctness"; success
  issues the access and refresh token pair.\<close>

definition login ::
  "collaborators \<Rightarrow> settings \<Rightarrow> time \<Rightarrow> string \<Rightarrow> string \<Rightarrow> auth_state \<Rightarrow>
   error + token \<times> token" where
  "login co st now mail_address password s =
     (case findByEmail (users s) mail_address of
        None \<Rightarrow> Inl InvalidCredentials
      | Some u \<Rightarrow>
          if \<not> verified u then Inl NotVerified
          else if \<not> verify_secret co password (hashed_secret u) then Inl InvalidCredentials
          else Inr (issueAccessToken co st now (user_id u),
                    issueRefreshToken co st now (user_id u)))"

text \<open>Modelled from the spec: \<^verbatim>\<open>forgotPassword(email)\<close> of section 4.4, absent from the
  repository: it "always responds success-shaped" and "only issues/sends a reset code if
  the account exists and is verified".\<close>

definition forgotPassword ::
  "settings \<Rightarrow> time \<Rightarrow> code \<Rightarrow> string \<Rightarrow> auth_state \<Rightarrow> (error + unit) \<times> auth_state" where
  "forgotPassword st now c mail_address s =
     (case findByEmail (users s) mail_address of
        None \<Rightarrow> (Inr (), s)
      | Some u \<Rightarrow>
          if verified u then
            (Inr (),
             \<lparr> users = updateById (users s) (user_id u)
                 (\<lambda>r. r\<lparr> reset_code := Some (issue st now c) \<rparr>),
               outbox = outbox s @ [ResetMail (email u) (fst (issue st now c))] \<rparr>)
          else (Inr (), s))"

text \<open>Modelled from the spec: the state of the record of an email in the state machine of
  section 4.4, absent from the repository.\<close>

definition state_of :: "auth_state \<Rightarrow> string \<Rightarrow> lifecycle" where
  "state_of s mail_address =
     (case findByEmail (users s) mail_address of
        None \<Rightarrow> Unregistered
      | Some u \<Rightarrow>
          if \<not> verified u then PendingVerification
          else if reset_code u = None then Verified
          else PasswordResetPending)"

section \<open>Evaluating \<^verbatim>\<open>Number\<close>\<close>

lemma bit_length_numeral:
  "bit_length 0 = 0"
  "bit_length 1 = 1"
  "bit_length (Suc 0) = 1"
  "bit_length (numeral k) = Suc (bit_length (numeral k div 2))"
  by (simp_all add: bit_length.simps)

lemmas Number_eval =
  Number_def StringToNumber_def NonDecimalIntegerLiteral_def StrDecimalLiteral_def
  StrUnsignedDecimalLiteral_def ExponentPart_opt_def is_digits_def digits_value_def
  is_digit_def digit_value_def trim_def is_white_space_def round_double_def
  floor_log2_def round_half_even_def pow2_def bit_length_numeral

lemma Number_undefined: "Number None = NaN"
  by (simp add: Number_def)

lemma Number_examples:
  "Number (Some ''3000'') = Num 3000"
  "Number (Some ''0'') = Num 0"
  "Number (Some ''00'') = Num 0"
  "Number (Some ''-0'') = NegZero"
  "Number (Some '''') = Num 0"
  "Number (Some ''-5'') = Num (- 5)"
  "Number (Some ''4'') = Num 4"
  "Number (Some '' 12.5e1 '') = Num 125"
  "Number (Some ''0x1F'') = Num 31"
  "Number (Some ''-0x10'') = NaN"
  "Number (Some ''5.'') = Num 5"
  "Number (Some ''.'') = NaN"
  "Number (Some ''12px'') = NaN"
  "Number (Some ''abc'') = NaN"
  "Number (Some ''-Infinity'') = NegInfinity"
  "Number (Some ''0.1'') = Num (3602879701896397 / 36028797018963968)"
  "Number (Some ''9007199254740993'') = Num 9007199254740992"
  by (simp_all add: Number_eval)

text \<open>The ends of the binary64 range: overflow to infinity, the smallest subnormal
  \<open>2\<^sup>-\<^sup>1\<^sup>0\<^sup>7\<^sup>4\<close>, and underflow to zero.\<close>

lemma Number_overflow: "Number (Some ''1e309'') = PosInfinity"
  by (simp add: Number_eval)

lemma Number_min_subnormal: "Number (Some ''5e-324'') = Num (1 / 2 ^ 1074)"
  by (simp add: Number_eval)

lemma Number_underflow: "Number (Some ''2e-324'') = Num 0"
  by (simp add: Number_eval)

subsection \<open>Integers below \<open>2\<^sup>5\<^sup>3\<close> convert exactly\<close>

lemma bit_length_bounds:
  "0 < n \<Longrightarrow> 2 ^ (bit_length n - 1) \<le> n \<and> n < 2 ^ bit_length n"
proof (induction n rule: bit_length.induct)
  case (1 n)
  show ?case
  proof (cases "n div 2 = 0")
    case True
    with 1 have "n = 1" by (auto simp: div_eq_0_iff)
    then show ?thesis by (simp add: bit_length.simps)
  next
    case False
    then have pos: "0 < n div 2" by simp
    from 1 pos have ih: "2 ^ (bit_length (n div 2) - 1) \<le> n div 2 \<and> n div 2 < 2 ^ bit_length (n div 2)"
      by simp
    have bl: "bit_length n = Suc (bit_length (n div 2))"
      using 1 by (simp add: bit_length.simps)
    have blpos: "0 < bit_length (n div 2)"
      using pos by (simp add: bit_length.simps)
    then obtain k where k: "bit_length (n div 2) = Suc k" by (cases "bit_length (n div 2)") auto
    from ih k have "2 * 2 ^ k \<le> 2 * (n div 2)" by simp
    also have "\<dots> \<le> n" by simp
    finally have lo: "2 ^ (bit_length n - 1) \<le> n" by (simp add: bl k)
    from ih have "n div 2 + 1 \<le> 2 ^ bit_length (n div 2)" by simp
    then have "2 * (n div 2) + 2 \<le> 2 * 2 ^ bit_length (n div 2)" by simp
    moreover have "n < 2 * (n div 2) + 2" by presburger
    ultimately have hi: "n < 2 ^ bit_length n" by (simp add: bl)
    from lo hi show ?thesis ..
  qed
qed

lemma floor_log2_integer:
  assumes "0 < n"
  shows "floor_log2 n 1 = int (bit_length n) - 1"
proof -
  have b1: "bit_length (Suc 0) = Suc 0" by (simp add: bit_length.simps)
  from bit_length_bounds [OF assms] have lo: "2 ^ (bit_length n - 1) \<le> n" ..
  have pos: "0 < bit_length n" using assms by (simp add: bit_length.simps)
  have e: "nat (int (bit_length n) - 1) = bit_length n - 1" by simp
  have ne: "nat (- (int (bit_length n) - 1)) = 0" using pos by simp
  have c: "\<not> n < 2 ^ (bit_length n - Suc 0)" using lo by simp
  have d: "int (bit_length n) - int (Suc 0) = int (bit_length n) - 1" by simp
  show ?thesis
    unfolding floor_log2_def b1 One_nat_def d Let_def e ne
    using c by simp
qed

lemma round_double_integer:
  assumes "0 < n" "n < 2 ^ 53"
  shows "round_double n 1 = Num (of_nat n)"
proof -
  from bit_length_bounds [OF assms(1)] have lo: "2 ^ (bit_length n - 1) \<le> n" ..
  have pos: "0 < bit_length n" using assms by (simp add: bit_length.simps)
  have lt: "(2::nat) ^ (bit_length n - 1) < 2 ^ 53" using lo assms(2) by simp
  have "bit_length n - 1 < 53" by (rule power_less_imp_less_exp [OF _ lt]) simp
  then have le: "bit_length n \<le> 53" by simp
  define s where "s = 53 - bit_length n"
  have e: "floor_log2 n 1 = int (bit_length n) - 1" by (rule floor_log2_integer [OF assms(1)])
  have m: "max (int (bit_length n) - 1) (- 1022) = int (bit_length n) - 1" by simp
  have s1: "52 - (int (bit_length n) - 1) = int s" using le by (simp add: s_def)
  have ne: "int (bit_length n) - 1 \<noteq> 1023" using le by simp
  have nl: "\<not> 1024 \<le> int (bit_length n) - 1" using le by simp
  have n0: "n \<noteq> 0" using assms(1) by simp
  have "round_double n 1 =
      Num (of_nat (round_half_even (n * 2 ^ nat (int s)) (1 * 2 ^ nat (- int s))) * pow2 (- int s))"
    unfolding round_double_def e m Let_def s1 using n0 nl ne by simp
  also have "\<dots> = Num (of_nat (n * 2 ^ s) * pow2 (- int s))"
    by (simp add: round_half_even_def)
  also have "\<dots> = Num (of_nat n)"
    by (simp add: pow2_def)
  finally show ?thesis .
qed

section \<open>Loading the \<^verbatim>\<open>.env\<close> file\<close>

lemma dotenv_config_keeps_process_env:
  "process_env k = Some v \<Longrightarrow> dotenv_config parsed process_env k = Some v"
  by (simp add: dotenv_config_def)

lemma dotenv_config_adds_parsed:
  "process_env k = None \<Longrightarrow> dotenv_config parsed process_env k = parsed k"
  by (simp add: dotenv_config_def)

lemma load_module_without_file: "load_module Map.empty process_env = Config process_env"
proof -
  have "dotenv_config Map.empty process_env = process_env"
    by (rule ext) (simp add: dotenv_config_def split: option.splits)
  then show ?thesis
    by (simp add: load_module_def)
qed

lemma or_number_cases:
  "or_number x d = (if x = NaN \<or> x = Num 0 \<or> x = NegZero then d else x)"
  by (cases x) (simp_all add: or_number_def)

section \<open>Properties of the configuration\<close>

text \<open>
  In a statement about \<open>Config env\<close> the environment is \<^verbatim>\<open>process.env\<close> as the object
  literal reads it, that is after \<^verbatim>\<open>dotenv.config()\<close> has run; \<open>load_module\<close> takes the
  process environment and the parsed \<^verbatim>\<open>.env\<close> file apart.
\<close>

subsection \<open>Signing secrets\<close>

text \<open>
  Claim C1 says that the access-token secret and the refresh-token secret differ under
  every environment. The module copies each secret from its own variable and compares
  nothing: an environment that gives both variables the same value yields one shared
  secret.
\<close>

theorem Config_secrets_shared_counterexample:
  "JWT_ACCESS_TOKEN
     (Config [''JWT_ACCESS_TOKEN'' \<mapsto> ''s3cret'', ''JWT_REFRESH_TOKEN'' \<mapsto> ''s3cret''])
   = JWT_REFRESH_TOKEN
     (Config [''JWT_ACCESS_TOKEN'' \<mapsto> ''s3cret'', ''JWT_REFRESH_TOKEN'' \<mapsto> ''s3cret''])"
  by (simp add: Config_def)

text \<open>
  Claim C1, amended: each of the two secrets is the value of its own environment
  variable (\<^verbatim>\<open>JWT_ACCESS_TOKEN\<close>, \<^verbatim>\<open>JWT_REFRESH_TOKEN\<close>), and the two secrets are distinct
  exactly when the two variables hold different values.
\<close>

theorem Config_secrets_distinct_iff:
  "JWT_ACCESS_TOKEN (Config env) = env ''JWT_ACCESS_TOKEN'' \<and>
   JWT_REFRESH_TOKEN (Config env) = env ''JWT_REFRESH_TOKEN'' \<and>
   (JWT_ACCESS_TOKEN (Config env) \<noteq> JWT_REFRESH_TOKEN (Config env)
      \<longleftrightarrow> env ''JWT_ACCESS_TOKEN'' \<noteq> env ''JWT_REFRESH_TOKEN'')"
  by (simp add: Config_def)

subsection \<open>Token lifetimes\<close>

text \<open>
  Claim C2 says that a lifetime variable that is set is taken as it is. A variable set
  to the empty string is falsy for \<^verbatim>\<open>||\<close>, so the default replaces it.
\<close>

theorem Config_expiry_empty_counterexample:
  "[''JWT_ACCESS_EXPIRY'' \<mapsto> ''''] ''JWT_ACCESS_EXPIRY'' = Some '''' \<and>
   JWT_ACCESS_EXPIRY (Config [''JWT_ACCESS_EXPIRY'' \<mapsto> '''']) = ''15m'' \<and>
   ''15m'' \<noteq> ''''"
  by (simp add: Config_def or_string_def)

text \<open>
  Claim C2, amended: when \<^verbatim>\<open>JWT_ACCESS_EXPIRY\<close> (\<^verbatim>\<open>JWT_REFRESH_EXPIRY\<close>) is unset or set to
  the empty string, the configured access (refresh) expiry is \<^verbatim>\<open>"15m"\<close> (\<^verbatim>\<open>"7d"\<close>); when it
  is set to a non-empty string, the configured value is that string.
\<close>

theorem Config_expiry_defaults:
  "(env ''JWT_ACCESS_EXPIRY'' = None \<or> env ''JWT_ACCESS_EXPIRY'' = Some [] \<longrightarrow>
      JWT_ACCESS_EXPIRY (Config env) = ''15m'') \<and>
   (env ''JWT_REFRESH_EXPIRY'' = None \<or> env ''JWT_REFRESH_EXPIRY'' = Some [] \<longrightarrow>
      JWT_REFRESH_EXPIRY (Config env) = ''7d'') \<and>
   (\<forall>s. env ''JWT_ACCESS_EXPIRY'' = Some s \<and> s \<noteq> [] \<longrightarrow>
      JWT_ACCESS_EXPIRY (Config env) = s) \<and>
   (\<forall>s. env ''JWT_REFRESH_EXPIRY'' = Some s \<and> s \<noteq> [] \<longrightarrow>
      JWT_REFRESH_EXPIRY (Config env) = s)"
  by (auto simp add: Config_def or_string_def)

theorem Config_expiry_defaults_witness:
  "JWT_ACCESS_EXPIRY (Config Map.empty) = ''15m'' \<and>
   JWT_REFRESH_EXPIRY (Config Map.empty) = ''7d'' \<and>
   JWT_ACCESS_EXPIRY
     (Config [''JWT_ACCESS_EXPIRY'' \<mapsto> ''30m'', ''JWT_REFRESH_EXPIRY'' \<mapsto> ''14d'']) = ''30m'' \<and>
   JWT_REFRESH_EXPIRY
     (Config [''JWT_ACCESS_EXPIRY'' \<mapsto> ''30m'', ''JWT_REFRESH_EXPIRY'' \<mapsto> ''14d'']) = ''14d''"
  using Config_expiry_defaults [of Map.empty]
    Config_expiry_defaults
      [of "[''JWT_ACCESS_EXPIRY'' \<mapsto> ''30m'', ''JWT_REFRESH_EXPIRY'' \<mapsto> ''14d'']"]
  by simp

subsection \<open>Hashing cost\<close>

text \<open>
  Claim C3 says that the cost factor is at least 10 under every environment. The module
  enforces no bound: \<^verbatim>\<open>BCRYPT_SALT_ROUND=4\<close> gives a cost factor of 4.
\<close>

theorem Config_salt_round_low_counterexample:
  "BCRYPT_SALT_ROUND (Config [''BCRYPT_SALT_ROUND'' \<mapsto> ''4'']) = Num 4 \<and>
   \<not> js_ge (BCRYPT_SALT_ROUND (Config [''BCRYPT_SALT_ROUND'' \<mapsto> ''4''])) (Num 10)"
  by (simp add: Config_def or_number_def Number_examples)

text \<open>
  Claim C3, amended: the cost factor is configurable through \<^verbatim>\<open>BCRYPT_SALT_ROUND\<close>. When
  the variable is unset the cost factor is 12, which is at least 10; when the variable
  is set to a string that \<^verbatim>\<open>Number\<close> converts to a truthy number, the cost factor is that
  number, whatever its size.
\<close>

theorem Config_salt_round:
  "(env ''BCRYPT_SALT_ROUND'' = None \<longrightarrow>
      BCRYPT_SALT_ROUND (Config env) = Num 12 \<and>
      js_ge (BCRYPT_SALT_ROUND (Config env)) (Num 10)) \<and>
   (\<forall>s. env ''BCRYPT_SALT_ROUND'' = Some s \<and> ToBoolean (Number (Some s)) \<longrightarrow>
      BCRYPT_SALT_ROUND (Config env) = Number (Some s))"
  by (simp add: Config_def or_number_def Number_undefined)

theorem Config_salt_round_witness:
  "BCRYPT_SALT_ROUND (Config Map.empty) = Num 12 \<and>
   js_ge (BCRYPT_SALT_ROUND (Config Map.empty)) (Num 10) \<and>
   BCRYPT_SALT_ROUND (Config [''BCRYPT_SALT_ROUND'' \<mapsto> ''14'']) = Num 14"
proof -
  have n: "Number (Some ''14'') = Num 14"
    by (simp add: Number_eval)
  show ?thesis
    using Config_salt_round [of Map.empty]
      Config_salt_round [of "[''BCRYPT_SALT_ROUND'' \<mapsto> ''14'']"]
    by (simp add: n)
qed

subsection \<open>What the configuration depends on\<close>





subsection \<open>Required variables that are missing\<close>

text \<open>
  Claim C9: when a required string variable is absent, the construction does not fail
  and the field is \<^verbatim>\<open>undefined\<close>. No expression of the literal can raise, so \<open>Config\<close>
  is a total function into the record; the field of an absent variable is \<open>None\<close>.
\<close>

theorem Config_missing_required_undefined:
  "(env ''MONGO_URI'' = None \<longrightarrow> MONGO_URI (Config env) = None) \<and>
   (env ''JWT_ACCESS_TOKEN'' = None \<longrightarrow> JWT_ACCESS_TOKEN (Config env) = None) \<and>
   (env ''JWT_REFRESH_TOKEN'' = None \<longrightarrow> JWT_REFRESH_TOKEN (Config env) = None) \<and>
   (env ''EMAIL_HOST'' = None \<longrightarrow> EMAIL_HOST (Config env) = None) \<and>
   (env ''EMAIL_USER'' = None \<longrightarrow> EMAIL_USER (Config env) = None) \<and>
   (env ''EMAIL_PASS'' = None \<longrightarrow> EMAIL_PASS (Config env) = None)"
  by (simp add: Config_def)

theorem Config_missing_required_undefined_witness:
  "MONGO_URI (Config Map.empty) = None \<and>
   JWT_ACCESS_TOKEN (Config Map.empty) = None \<and>
   JWT_REFRESH_TOKEN (Config Map.empty) = None \<and>
   EMAIL_HOST (Config Map.empty) = None \<and>
   EMAIL_USER (Config Map.empty) = None \<and>
   EMAIL_PASS (Config Map.empty) = None"
  using Config_missing_required_undefined [of Map.empty] by simp

subsection \<open>Numeric fields\<close>

text \<open>
  Claim C10 says that a numeric variable other than the string \<^verbatim>\<open>"0"\<close> is taken as its
  number. Every spelling of zero is falsy for \<^verbatim>\<open>||\<close>: \<^verbatim>\<open>PORT=00\<close> is numeric, is not the
  string \<^verbatim>\<open>"0"\<close>, and gives the default port.
\<close>

theorem Config_numeric_zero_spelling_counterexample:
  "Number (Some ''00'') = Num 0 \<and> ''00'' \<noteq> ''0'' \<and>
   PORT (Config [''PORT'' \<mapsto> ''00'']) = Num 3000"
  by (simp add: Config_def or_number_def Number_examples)

text \<open>
  Claim C10, amended: for every numeric field (\<^verbatim>\<open>PORT\<close>, \<^verbatim>\<open>EMAIL_PORT\<close>,
  \<^verbatim>\<open>BCRYPT_SALT_ROUND\<close>, \<^verbatim>\<open>RATE_LIMIT_WINDOW_MS\<close>, \<^verbatim>\<open>RATE_LIMIT_MAX_REQUESTS\<close>), if
  \<^verbatim>\<open>Number\<close> of the variable is \<^verbatim>\<open>NaN\<close> (the variable is absent or not numeric) or a zero
  (\<^verbatim>\<open>"0"\<close> or any other spelling of zero, the empty string included), the field is its
  built-in default (3000, 587, 12, 900000, 100); otherwise the field is that number
  unchanged, negative numbers included.
\<close>

theorem Config_numeric_fields:
  "Number None = NaN \<and> Number (Some ''0'') = Num 0 \<and>
   (\<forall>(v, f, d) \<in> set numeric_fields.
      f (Config env) =
        (if Number (env v) = NaN \<or> Number (env v) = Num 0 \<or> Number (env v) = NegZero
         then Num d else Number (env v)))"
  by (simp add: numeric_fields_def Config_def or_number_cases Number_undefined
      Number_examples)

theorem Config_numeric_fields_witness:
  "PORT (Config [''PORT'' \<mapsto> ''-5'', ''EMAIL_PORT'' \<mapsto> ''abc'',
      ''BCRYPT_SALT_ROUND'' \<mapsto> ''0'']) = Num (- 5) \<and>
   EMAIL_PORT (Config [''PORT'' \<mapsto> ''-5'', ''EMAIL_PORT'' \<mapsto> ''abc'',
      ''BCRYPT_SALT_ROUND'' \<mapsto> ''0'']) = Num 587 \<and>
   BCRYPT_SALT_ROUND (Config [''PORT'' \<mapsto> ''-5'', ''EMAIL_PORT'' \<mapsto> ''abc'',
      ''BCRYPT_SALT_ROUND'' \<mapsto> ''0'']) = Num 12 \<and>
   RATE_LIMIT_WINDOW_MS (Config [''PORT'' \<mapsto> ''-5'', ''EMAIL_PORT'' \<mapsto> ''abc'',
      ''BCRYPT_SALT_ROUND'' \<mapsto> ''0'']) = Num 900000 \<and>
   RATE_LIMIT_MAX_REQUESTS (Config [''PORT'' \<mapsto> ''-5'', ''EMAIL_PORT'' \<mapsto> ''abc'',
      ''BCRYPT_SALT_ROUND'' \<mapsto> ''0'']) = Num 100"
  using Config_numeric_fields
    [of "[''PORT'' \<mapsto> ''-5'', ''EMAIL_PORT'' \<mapsto> ''abc'', ''BCRYPT_SALT_ROUND'' \<mapsto> ''0'']"]
  by (simp add: numeric_fields_def Number_examples Number_undefined)

section \<open>Properties of the authentication lifecycle of the specification\<close>

text \<open>
  The statements of this section are about the definitions written from the
  specification: they show that its sections 3, 4 and 8 agree with each other, not that
  a program implements them.
\<close>

lemma find_append_fresh:
  "find P xs = None \<Longrightarrow> P x \<Longrightarrow> find P (xs @ [x]) = Some x"
  by (induction xs) (auto split: if_splits)

lemma find_map_preserved:
  "(\<And>x. P (g x) = P x) \<Longrightarrow> find P (map g xs) = map_option g (find P xs)"
  by (induction xs) auto

lemma findByEmail_create:
  "findByEmail us e = None \<Longrightarrow> email u = e \<Longrightarrow> findByEmail (us @ [u]) e = Some u"
  unfolding findByEmail_def by (rule find_append_fresh) simp_all

lemma findByEmail_updateById:
  "(\<And>r. email (f r) = email r) \<Longrightarrow>
   findByEmail (updateById us i f) e =
     map_option (\<lambda>u. if user_id u = i then f u else u) (findByEmail us e)"
  unfolding findByEmail_def updateById_def
  by (rule find_map_preserved) simp

lemma verify_hash_secret:
  "hash_secret co st salt p = Some h \<Longrightarrow> verify_secret co p h"
  by (auto simp add: hash_secret_def verify_secret_def split: if_splits)

subsection \<open>Hashing the same password twice\<close>

text \<open>
  Claim C6 says that two invocations of the Secret Hasher on the same non-empty
  plaintext give two different hashes that both verify. The salt that an invocation
  draws is an argument here. A password that is not empty but too short is rejected,
  so there is no hash at all; and the hash of an accepted password is determined by
  the cost, the salt and the plaintext, so two invocations that draw the same salt
  give the same hash.
\<close>

theorem hash_secret_same_salt_counterexample:
  "hash_secret \<lparr> digest = (\<lambda>n salt p. salt @ p), sign = (\<lambda>k (i, t). k),
       valid_input = (\<lambda>n e p. n \<noteq> [] \<and> e \<noteq> []) \<rparr>
     \<lparr> cost = 12, min_secret_length = 8, code_window = 600,
       access_secret = ''a'', refresh_secret = ''r'', access_ttl = 900,
       refresh_ttl = 604800 \<rparr> ''NaCl'' ''abc'' = None \<and>
   ''abc'' \<noteq> [] \<and>
   hash_secret \<lparr> digest = (\<lambda>n salt p. salt @ p), sign = (\<lambda>k (i, t). k),
       valid_input = (\<lambda>n e p. n \<noteq> [] \<and> e \<noteq> []) \<rparr>
     \<lparr> cost = 12, min_secret_length = 8, code_window = 600,
       access_secret = ''a'', refresh_secret = ''r'', access_ttl = 900,
       refresh_ttl = 604800 \<rparr> ''NaCl'' ''Secret123!''
     = Some (Hash 12 ''NaCl'' ''NaClSecret123!'')"
  by (simp add: hash_secret_def)

text \<open>
  Claim C6, amended: for every password that the Secret Hasher accepts (not empty and
  not shorter than the configured minimum), two invocations on the same plaintext that
  draw different salts give two different hashes, and the verification operation
  returns a match for the original plaintext against each of the two.
\<close>

theorem hash_twice_distinct_salts:
  assumes "password \<noteq> []" and "min_secret_length st \<le> length password"
    and "salt1 \<noteq> salt2"
  shows "\<exists>h1 h2. hash_secret co st salt1 password = Some h1 \<and>
           hash_secret co st salt2 password = Some h2 \<and> h1 \<noteq> h2 \<and>
           verify_secret co password h1 \<and> verify_secret co password h2"
  using assms by (simp add: hash_secret_def verify_secret_def)

theorem hash_twice_distinct_salts_witness:
  "hash_secret \<lparr> digest = (\<lambda>n salt p. salt @ p), sign = (\<lambda>k (i, t). k),
       valid_input = (\<lambda>n e p. n \<noteq> [] \<and> e \<noteq> []) \<rparr>
     \<lparr> cost = 12, min_secret_length = 8, code_window = 600,
       access_secret = ''a'', refresh_secret = ''r'', access_ttl = 900,
       refresh_ttl = 604800 \<rparr> ''NaCl'' ''Secret123!''
   \<noteq> hash_secret \<lparr> digest = (\<lambda>n salt p. salt @ p), sign = (\<lambda>k (i, t). k),
       valid_input = (\<lambda>n e p. n \<noteq> [] \<and> e \<noteq> []) \<rparr>
     \<lparr> cost = 12, min_secret_length = 8, code_window = 600,
       access_secret = ''a'', refresh_secret = ''r'', access_ttl = 900,
       refresh_ttl = 604800 \<rparr> ''KCl'' ''Secret123!''"
proof -
  have p: "''Secret123!'' \<noteq> []" and s: "''NaCl'' \<noteq> ''KCl''"
    by simp_all
  have l: "min_secret_length \<lparr> cost = 12, min_secret_length = 8, code_window = 600,
       access_secret = ''a'', refresh_secret = ''r'', access_ttl = 900,
       refresh_ttl = 604800 \<rparr> \<le> length ''Secret123!''"
    by simp
  from hash_twice_distinct_salts [OF p l s] show ?thesis
    by (metis option.inject)
qed

subsection \<open>Register, verify, log in\<close>

text \<open>
  Claim C4: for a triple that the validator and the hasher accept and an email that is
  not registered, \<^verbatim>\<open>register\<close> succeeds and sends the code \<open>c\<close>; \<^verbatim>\<open>verifyEmail\<close> with that
  code at a time \<open>t1\<close> not after the expiry succeeds and takes the record from
  \<^verbatim>\<open>PendingVerification\<close> to \<^verbatim>\<open>Verified\<close>; \<^verbatim>\<open>login\<close> with the same email and password, at any later time
  \<open>t2\<close>, returns the access and refresh tokens of the new user.
\<close>

theorem register_verify_login:
  assumes valid: "valid_input co name e password"
    and long: "password \<noteq> []" "min_secret_length st \<le> length password"
    and fresh: "findByEmail (users s) e = None"
    and reg: "register co st t0 c salt name e password s = (r1, s1)"
    and intime: "t1 \<le> t0 + code_window st"
    and ver: "verifyEmail t1 e c s1 = (r2, s2)"
  shows "r1 = Inr () \<and> outbox s1 = outbox s @ [VerificationMail e c] \<and>
         state_of s1 e = PendingVerification \<and>
         r2 = Inr () \<and> state_of s2 e = Verified \<and>
         login co st t2 e password s2 =
           Inr (issueAccessToken co st t2 (length (users s)),
                issueRefreshToken co st t2 (length (users s)))"
proof -
  define h where "h = Hash (cost st) salt (digest co (cost st) salt password)"
  define u where "u = \<lparr> user_id = length (users s), display_name = name, email = e,
      hashed_secret = h, verified = False,
      verification_code = Some (c, t0 + code_window st), reset_code = None \<rparr>"
  define g where "g = (\<lambda>r::user. r\<lparr> verified := True, verification_code := None \<rparr>)"
  have hs: "hash_secret co st salt password = Some h"
    using long by (simp add: hash_secret_def h_def)
  have r1: "r1 = Inr ()"
    and s1: "s1 = \<lparr> users = users s @ [u], outbox = outbox s @ [VerificationMail e c] \<rparr>"
    using reg valid fresh hs by (simp_all add: register_def issue_def u_def)
  have f1: "findByEmail (users s1) e = Some u"
    using fresh by (simp add: s1 findByEmail_create u_def)
  have p1: "state_of s1 e = PendingVerification"
    by (simp add: state_of_def f1 u_def)
  have chk: "check c (t0 + code_window st) c t1 = Valid"
    using intime by (simp add: check_def)
  have r2: "r2 = Inr ()"
    and s2: "s2 = s1\<lparr> users := updateById (users s1) (user_id u) g \<rparr>"
    using ver f1 chk by (simp_all add: verifyEmail_def u_def g_def)
  have f2: "findByEmail (users s2) e = Some (g u)"
    by (simp add: s2 findByEmail_updateById g_def f1)
  have st: "state_of s2 e = Verified"
    by (simp add: state_of_def f2 g_def u_def)
  have vs: "verify_secret co password (hashed_secret (g u))"
    using verify_hash_secret [OF hs] by (simp add: g_def u_def)
  have lg: "login co st t2 e password s2 =
           Inr (issueAccessToken co st t2 (length (users s)),
                issueRefreshToken co st t2 (length (users s)))"
    using vs by (simp add: login_def f2) (simp add: g_def u_def)
  show ?thesis
    using r1 s1 p1 r2 st lg by simp
qed

text \<open>The scenario of section 8, with a toy digest and signature: Ann registers at time
  10, verifies at 20 with the code she was sent, and logs in at 30.\<close>

theorem register_verify_login_witness:
  "login
     \<lparr> digest = (\<lambda>n salt p. salt @ p), sign = (\<lambda>k (i, t). k),
       valid_input = (\<lambda>n e p. n \<noteq> [] \<and> e \<noteq> []) \<rparr>
     \<lparr> cost = 12, min_secret_length = 8, code_window = 600,
       access_secret = ''a'', refresh_secret = ''r'', access_ttl = 900,
       refresh_ttl = 604800 \<rparr>
     30 ''ann@x.com'' ''Secret123!''
     (snd (verifyEmail 20 ''ann@x.com'' ''482913''
       (snd (register
          \<lparr> digest = (\<lambda>n salt p. salt @ p), sign = (\<lambda>k (i, t). k),
            valid_input = (\<lambda>n e p. n \<noteq> [] \<and> e \<noteq> []) \<rparr>
          \<lparr> cost = 12, min_secret_length = 8, code_window = 600,
            access_secret = ''a'', refresh_secret = ''r'', access_ttl = 900,
            refresh_ttl = 604800 \<rparr>
          10 ''482913'' ''NaCl'' ''Ann'' ''ann@x.com'' ''Secret123!''
          \<lparr> users = [], outbox = [] \<rparr>))))
   = Inr (\<lparr> subject = 0, expires_at = 930, signature = ''a'' \<rparr>,
          \<lparr> subject = 0, expires_at = 604830, signature = ''r'' \<rparr>)"
proof -
  let ?co = "\<lparr> digest = (\<lambda>n salt p. salt @ p), sign = (\<lambda>k (i, t). k),
       valid_input = (\<lambda>n e p. n \<noteq> [] \<and> e \<noteq> []) \<rparr>"
  let ?st = "\<lparr> cost = 12, min_secret_length = 8, code_window = 600,
       access_secret = ''a'', refresh_secret = ''r'', access_ttl = 900,
       refresh_ttl = 604800 \<rparr>"
  let ?s = "\<lparr> users = [], outbox = [] \<rparr>"
  let ?R = "register ?co ?st 10 ''482913'' ''NaCl'' ''Ann'' ''ann@x.com'' ''Secret123!'' ?s"
  let ?V = "verifyEmail 20 ''ann@x.com'' ''482913'' (snd ?R)"
  have "fst ?R = Inr () \<and>
        outbox (snd ?R) = outbox ?s @ [VerificationMail ''ann@x.com'' ''482913''] \<and>
        state_of (snd ?R) ''ann@x.com'' = PendingVerification \<and>
        fst ?V = Inr () \<and> state_of (snd ?V) ''ann@x.com'' = Verified \<and>
        login ?co ?st 30 ''ann@x.com'' ''Secret123!'' (snd ?V) =
          Inr (issueAccessToken ?co ?st 30 (length (users ?s)),
               issueRefreshToken ?co ?st 30 (length (users ?s)))"
    by (rule register_verify_login [where ?t0.0 = 10 and ?t1.0 = 20 and salt = "''NaCl''"
          and name = "''Ann''"])
      (simp_all add: findByEmail_def)
  then show ?thesis
    by (simp add: issueAccessToken_def issueRefreshToken_def)
qed

subsection \<open>Expired codes\<close>

text \<open>
  Claim C5: at any time strictly after the expiry timestamp the check of a code gives
  \<^verbatim>\<open>expired\<close>, whatever code is supplied, the stored one included; \<^verbatim>\<open>verifyEmail\<close> on a
  record that holds this code and expiry then fails with \<^verbatim>\<open>CodeExpired\<close> and leaves
  the state as it was.
\<close>

theorem check_after_expiry:
  assumes "storedExpiry < now"
  shows "check storedCode storedExpiry suppliedCode now = Expired \<and>
         (\<forall>s e u. findByEmail (users s) e = Some u \<and>
              verification_code u = Some (storedCode, storedExpiry) \<longrightarrow>
              verifyEmail now e suppliedCode s = (Inl CodeExpired, s))"
  using assms by (simp add: check_def verifyEmail_def)

theorem check_after_expiry_witness:
  "check ''482913'' 1000 ''482913'' 1001 = Expired \<and>
   verifyEmail 1001 ''ann@x.com'' ''482913''
     \<lparr> users = [\<lparr> user_id = 0, display_name = ''Ann'', email = ''ann@x.com'',
                  hashed_secret = Hash 12 ''NaCl'' ''d'', verified = False,
                  verification_code = Some (''482913'', 1000), reset_code = None \<rparr>],
       outbox = [] \<rparr>
   = (Inl CodeExpired,
      \<lparr> users = [\<lparr> user_id = 0, display_name = ''Ann'', email = ''ann@x.com'',
                  hashed_secret = Hash 12 ''NaCl'' ''d'', verified = False,
                  verification_code = Some (''482913'', 1000), reset_code = None \<rparr>],
        outbox = [] \<rparr>)"
proof -
  have lt: "(1000::nat) < 1001"
    by simp
  show ?thesis
    using check_after_expiry [OF lt, of "''482913''" "''482913''"]
    by (simp add: findByEmail_def)
qed

subsection \<open>Forgotten passwords\<close>

text \<open>
  Claim C7: \<^verbatim>\<open>forgotPassword\<close> answers every email with the same success response, so a
  registered and an unregistered email cannot be told apart by the response; the state
  changes (a reset code is stored and sent) only when the account exists and is
  verified, and then the code is stored on the record and mailed to its address.
\<close>

theorem forgotPassword_no_enumeration:
  "fst (forgotPassword st now c e1 s) = Inr () \<and>
   fst (forgotPassword st now c e1 s) = fst (forgotPassword st now c e2 s) \<and>
   (snd (forgotPassword st now c e1 s) \<noteq> s \<longrightarrow>
      (\<exists>u. findByEmail (users s) e1 = Some u \<and> verified u)) \<and>
   (\<forall>u. findByEmail (users s) e1 = Some u \<and> verified u \<longrightarrow>
      outbox (snd (forgotPassword st now c e1 s)) = outbox s @ [ResetMail (email u) c] \<and>
      map_option reset_code (findByEmail (users (snd (forgotPassword st now c e1 s))) e1)
        = Some (Some (c, now + code_window st)))"
  by (auto simp add: forgotPassword_def issue_def findByEmail_updateById
      split: option.splits)

theorem forgotPassword_no_enumeration_witness:
  "fst (forgotPassword
      \<lparr> cost = 12, min_secret_length = 8, code_window = 600,
        access_secret = ''a'', refresh_secret = ''r'', access_ttl = 900,
        refresh_ttl = 604800 \<rparr>
      50 ''771204'' ''ann@x.com''
      \<lparr> users = [\<lparr> user_id = 0, display_name = ''Ann'', email = ''ann@x.com'',
                   hashed_secret = Hash 12 ''NaCl'' ''d'', verified = True,
                   verification_code = None, reset_code = None \<rparr>],
        outbox = [] \<rparr>)
   = fst (forgotPassword
      \<lparr> cost = 12, min_secret_length = 8, code_window = 600,
        access_secret = ''a'', refresh_secret = ''r'', access_ttl = 900,
        refresh_ttl = 604800 \<rparr>
      50 ''771204'' ''bob@x.com''
      \<lparr> users = [\<lparr> user_id = 0, display_name = ''Ann'', email = ''ann@x.com'',
                   hashed_secret = Hash 12 ''NaCl'' ''d'', verified = True,
                   verification_code = None, reset_code = None \<rparr>],
        outbox = [] \<rparr>) \<and>
   outbox (snd (forgotPassword
      \<lparr> cost = 12, min_secret_length = 8, code_window = 600,
        access_secret = ''a'', refresh_secret = ''r'', access_ttl = 900,
        refresh_ttl = 604800 \<rparr>
      50 ''771204'' ''ann@x.com''
      \<lparr> users = [\<lparr> user_id = 0, display_name = ''Ann'', email = ''ann@x.com'',
                   hashed_secret = Hash 12 ''NaCl'' ''d'', verified = True,
                   verification_code = None, reset_code = None \<rparr>],
        outbox = [] \<rparr>))
   = [ResetMail ''ann@x.com'' ''771204'']"
proof -
  let ?st = "\<lparr> cost = 12, min_secret_length = 8, code_window = 600,
        access_secret = ''a'', refresh_secret = ''r'', access_ttl = 900,
        refresh_ttl = 604800 \<rparr>"
  let ?ann = "\<lparr> user_id = 0, display_name = ''Ann'', email = ''ann@x.com'',
                   hashed_secret = Hash 12 ''NaCl'' ''d'', verified = True,
                   verification_code = None, reset_code = None \<rparr>"
  let ?s = "\<lparr> users = [?ann], outbox = [] \<rparr>"
  have f: "findByEmail (users ?s) ''ann@x.com'' = Some ?ann"
    by (simp add: findByEmail_def)
  note T = forgotPassword_no_enumeration
      [of ?st 50 "''771204''" "''ann@x.com''" ?s "''bob@x.com''"]
  have a: "fst (forgotPassword ?st 50 ''771204'' ''ann@x.com'' ?s) =
           fst (forgotPassword ?st 50 ''771204'' ''bob@x.com'' ?s)"
    using T by blast
  have "verified ?ann"
    by simp
  with T f have "outbox (snd (forgotPassword ?st 50 ''771204'' ''ann@x.com'' ?s)) =
           outbox ?s @ [ResetMail (email ?ann) ''771204'']"
    by blast
  then have b: "outbox (snd (forgotPassword ?st 50 ''771204'' ''ann@x.com'' ?s)) =
           [ResetMail ''ann@x.com'' ''771204'']"
    by simp
  show ?thesis
    using a b by (rule conjI)
qed

end
